theory Spec2Isabelle
  imports Complex_Main
begin

section \<open>Strings\<close>

text \<open>
  The source works on JavaScript strings. They are modelled as \<^typ>\<open>string\<close>; the
  character classes and case mapping below are the ASCII part of the JavaScript ones.
\<close>

definition charCode :: "char \<Rightarrow> int" where
  "charCode c = of_char c"

definition isUpperChar :: "char \<Rightarrow> bool" where
  "isUpperChar c = (65 \<le> charCode c \<and> charCode c \<le> 90)"

definition isLowerChar :: "char \<Rightarrow> bool" where
  "isLowerChar c = (97 \<le> charCode c \<and> charCode c \<le> 122)"

definition isDigitChar :: "char \<Rightarrow> bool" where
  "isDigitChar c = (48 \<le> charCode c \<and> charCode c \<le> 57)"

definition isAlphaChar :: "char \<Rightarrow> bool" where
  "isAlphaChar c = (isUpperChar c \<or> isLowerChar c)"

definition isAlnumChar :: "char \<Rightarrow> bool" where
  "isAlnumChar c = (isAlphaChar c \<or> isDigitChar c)"

text \<open>The class \<open>\s\<close> of a regular expression and of \<open>trim\<close>: tab, line feed, vertical
  tab, form feed, carriage return and space.\<close>

definition isSpaceChar :: "char \<Rightarrow> bool" where
  "isSpaceChar c = ((9 \<le> charCode c \<and> charCode c \<le> 13) \<or> charCode c = 32)"

definition toLowerChar :: "char \<Rightarrow> char" where
  "toLowerChar c = (if isUpperChar c then char_of (charCode c + 32) else c)"

definition toUpperChar :: "char \<Rightarrow> char" where
  "toUpperChar c = (if isLowerChar c then char_of (charCode c - 32) else c)"

definition toLowerCase :: "string \<Rightarrow> string" where
  "toLowerCase s = map toLowerChar s"

definition startsWith :: "string \<Rightarrow> string \<Rightarrow> bool" where
  "startsWith s p = (take (length p) s = p)"

definition endsWith :: "string \<Rightarrow> string \<Rightarrow> bool" where
  "endsWith s p = (length p \<le> length s \<and> drop (length s - length p) s = p)"

fun includesStr :: "string \<Rightarrow> string \<Rightarrow> bool" where
  "includesStr [] p = (p = [])"
| "includesStr (c # s) p = (startsWith (c # s) p \<or> includesStr s p)"

definition trimStart :: "string \<Rightarrow> string" where
  "trimStart s = dropWhile isSpaceChar s"

definition trimEnd :: "string \<Rightarrow> string" where
  "trimEnd s = rev (dropWhile isSpaceChar (rev s))"

definition trim :: "string \<Rightarrow> string" where
  "trim s = trimEnd (trimStart s)"

text \<open>\<open>xs.join(sep)\<close>.\<close>

fun join :: "string \<Rightarrow> string list \<Rightarrow> string" where
  "join sep [] = []"
| "join sep [x] = x"
| "join sep (x # y # ys) = x @ sep @ join sep (y # ys)"

text \<open>\<open>s.split(c)\<close> for a one-character separator: the pieces between the separators,
  empty pieces included; the empty string gives one empty piece.\<close>

fun splitChar :: "char \<Rightarrow> string \<Rightarrow> string list" where
  "splitChar sep [] = [[]]"
| "splitChar sep (c # s) =
     (if c = sep then [] # splitChar sep s
      else (case splitChar sep s of
              [] \<Rightarrow> [[c]]
            | w # ws \<Rightarrow> (c # w) # ws))"


text \<open>The decimal text of a natural number, as a template literal prints it.\<close>

fun showNat :: "nat \<Rightarrow> string" where
  "showNat n =
     (if n < 10 then [char_of (48 + int n)]
      else showNat (n div 10) @ [char_of (48 + int (n mod 10))])"

declare showNat.simps [simp del]

text \<open>\<open>Array.from(new Set(xs))\<close>: the first occurrence of every element, in order.\<close>

definition dedupe :: "'a list \<Rightarrow> 'a list" where
  "dedupe xs = rev (remdups (rev xs))"

section \<open>The in-memory storage (server/storage.ts, class MemStorage)\<close>

type_synonym date = nat

record topic =
  topic_id :: nat
  topic_name :: string
  topic_description :: "string option"
  topic_createdAt :: date

record prompt =
  prompt_id :: nat
  prompt_text :: string
  prompt_topicId :: "nat option"
  prompt_createdAt :: date

record response =
  response_id :: nat
  response_promptId :: nat
  response_text :: string
  response_brandMentioned :: "bool option"
  response_competitorsMentioned :: "string list option"
  response_sources :: "string list option"
  response_createdAt :: date

record competitor =
  competitor_id :: nat
  competitor_name :: string
  competitor_category :: "string option"
  competitor_mentionCount :: "int option"
  competitor_lastMentioned :: "date option"

record source =
  source_id :: nat
  source_domain :: string
  source_url :: string
  source_title :: "string option"
  source_citationCount :: "int option"
  source_lastCited :: "date option"

record analytics_row =
  analytics_id :: nat
  analytics_date :: date
  analytics_totalPrompts :: "nat option"
  analytics_brandMentionRate :: "real option"
  analytics_topCompetitor :: "string option"
  analytics_totalSources :: "nat option"
  analytics_totalDomains :: "nat option"

text \<open>The insert types of shared/schema.ts: the row without the generated columns; a
  column with a default or without \<open>notNull\<close> may be left out or be null (\<open>None\<close>).\<close>

record InsertTopic =
  it_name :: string
  it_description :: "string option"

record InsertPrompt =
  ip_text :: string
  ip_topicId :: "nat option"

record InsertResponse =
  ir_promptId :: nat
  ir_text :: string
  ir_brandMentioned :: "bool option"
  ir_competitorsMentioned :: "string list option"
  ir_sources :: "string list option"

record InsertCompetitor =
  ic_name :: string
  ic_category :: "string option"
  ic_mentionCount :: "int option"

record InsertSource =
  is_domain :: string
  is_url :: string
  is_title :: "string option"
  is_citationCount :: "int option"

record InsertAnalytics =
  ia_totalPrompts :: "nat option"
  ia_brandMentionRate :: "real option"
  ia_topCompetitor :: "string option"
  ia_totalSources :: "nat option"
  ia_totalDomains :: "nat option"

text \<open>A JavaScript \<open>Map\<close> keeps its entries in insertion order; \<open>set\<close> replaces the value
  of a key that is present and appends a new key.\<close>

fun mapSet :: "nat \<Rightarrow> 'v \<Rightarrow> (nat \<times> 'v) list \<Rightarrow> (nat \<times> 'v) list" where
  "mapSet k v [] = [(k, v)]"
| "mapSet k v ((k', v') # m) = (if k' = k then (k, v) # m else (k', v') # mapSet k v m)"

definition mapValues :: "(nat \<times> 'v) list \<Rightarrow> 'v list" where
  "mapValues m = map snd m"

record MemStorage =
  ms_topics :: "(nat \<times> topic) list"
  ms_prompts :: "(nat \<times> prompt) list"
  ms_responses :: "(nat \<times> response) list"
  ms_competitors :: "(nat \<times> competitor) list"
  ms_sources :: "(nat \<times> source) list"
  ms_analytics :: "(nat \<times> analytics_row) list"
  currentTopicId :: nat
  currentPromptId :: nat
  currentResponseId :: nat
  currentCompetitorId :: nat
  currentSourceId :: nat
  currentAnalyticsId :: nat

definition newMemStorage :: MemStorage where
  "newMemStorage =
     \<lparr>ms_topics = [], ms_prompts = [], ms_responses = [], ms_competitors = [], ms_sources = [], ms_analytics = [],
      currentTopicId = 1, currentPromptId = 1, currentResponseId = 1, currentCompetitorId = 1,
      currentSourceId = 1, currentAnalyticsId = 1\<rparr>"

text \<open>\<open>x || null\<close> on a string, a number: the empty string and 0 are falsy.\<close>

definition orNullString :: "string option \<Rightarrow> string option" where
  "orNullString x = (case x of None \<Rightarrow> None | Some s \<Rightarrow> if s = [] then None else Some s)"

definition orNullInt :: "int option \<Rightarrow> int option" where
  "orNullInt x = (case x of None \<Rightarrow> None | Some n \<Rightarrow> if n = 0 then None else Some n)"

definition orNullNat :: "nat option \<Rightarrow> nat option" where
  "orNullNat x = (case x of None \<Rightarrow> None | Some n \<Rightarrow> if n = 0 then None else Some n)"

definition orNullReal :: "real option \<Rightarrow> real option" where
  "orNullReal x = (case x of None \<Rightarrow> None | Some n \<Rightarrow> if n = 0 then None else Some n)"

definition getTopics :: "MemStorage \<Rightarrow> topic list" where
  "getTopics s = mapValues (ms_topics s)"

definition createTopic :: "InsertTopic \<Rightarrow> date \<Rightarrow> MemStorage \<Rightarrow> topic \<times> MemStorage" where
  "createTopic t now s =
     (let newTopic = \<lparr>topic_id = currentTopicId s, topic_name = it_name t,
                       topic_description = it_description t, topic_createdAt = now\<rparr>
      in (newTopic,
          s\<lparr>currentTopicId := currentTopicId s + 1,
            ms_topics := mapSet (topic_id newTopic) newTopic (ms_topics s)\<rparr>))"

definition getPrompts :: "MemStorage \<Rightarrow> prompt list" where
  "getPrompts s = mapValues (ms_prompts s)"

definition createPrompt :: "InsertPrompt \<Rightarrow> date \<Rightarrow> MemStorage \<Rightarrow> prompt \<times> MemStorage" where
  "createPrompt p now s =
     (let newPrompt = \<lparr>prompt_id = currentPromptId s, prompt_text = ip_text p,
                        prompt_topicId = ip_topicId p, prompt_createdAt = now\<rparr>
      in (newPrompt,
          s\<lparr>currentPromptId := currentPromptId s + 1,
            ms_prompts := mapSet (prompt_id newPrompt) newPrompt (ms_prompts s)\<rparr>))"

definition getResponses :: "MemStorage \<Rightarrow> response list" where
  "getResponses s = mapValues (ms_responses s)"

definition createResponse :: "InsertResponse \<Rightarrow> date \<Rightarrow> MemStorage \<Rightarrow> response \<times> MemStorage" where
  "createResponse r now s =
     (let newResponse = \<lparr>response_id = currentResponseId s, response_promptId = ir_promptId r,
                          response_text = ir_text r,
                          response_brandMentioned = ir_brandMentioned r,
                          response_competitorsMentioned = ir_competitorsMentioned r,
                          response_sources = ir_sources r, response_createdAt = now\<rparr>
      in (newResponse,
          s\<lparr>currentResponseId := currentResponseId s + 1,
            ms_responses := mapSet (response_id newResponse) newResponse (ms_responses s)\<rparr>))"

definition getCompetitors :: "MemStorage \<Rightarrow> competitor list" where
  "getCompetitors s = mapValues (ms_competitors s)"

definition createCompetitor :: "InsertCompetitor \<Rightarrow> MemStorage \<Rightarrow> competitor \<times> MemStorage" where
  "createCompetitor c s =
     (let newCompetitor = \<lparr>competitor_id = currentCompetitorId s, competitor_name = ic_name c,
                            competitor_category = orNullString (ic_category c),
                            competitor_mentionCount = orNullInt (ic_mentionCount c),
                            competitor_lastMentioned = None\<rparr>
      in (newCompetitor,
          s\<lparr>currentCompetitorId := currentCompetitorId s + 1,
            ms_competitors := mapSet (competitor_id newCompetitor) newCompetitor (ms_competitors s)\<rparr>))"

definition getCompetitorByName :: "string \<Rightarrow> MemStorage \<Rightarrow> competitor option" where
  "getCompetitorByName name s = find (\<lambda>c. competitor_name c = name) (mapValues (ms_competitors s))"

definition updateCompetitorMentionCount :: "string \<Rightarrow> int \<Rightarrow> date \<Rightarrow> MemStorage \<Rightarrow> MemStorage" where
  "updateCompetitorMentionCount name increment now s =
     (case getCompetitorByName name s of
        None \<Rightarrow> s
      | Some c \<Rightarrow>
          (case competitor_mentionCount c of
             None \<Rightarrow> s
           | Some n \<Rightarrow>
               s\<lparr>ms_competitors :=
                    mapSet (competitor_id c)
                      (c\<lparr>competitor_mentionCount := Some (n + increment),
                         competitor_lastMentioned := Some now\<rparr>)
                      (ms_competitors s)\<rparr>))"

definition getSources :: "MemStorage \<Rightarrow> source list" where
  "getSources s = mapValues (ms_sources s)"

definition createSource :: "InsertSource \<Rightarrow> date \<Rightarrow> MemStorage \<Rightarrow> source \<times> MemStorage" where
  "createSource src now s =
     (let newSource = \<lparr>source_id = currentSourceId s, source_domain = is_domain src,
                        source_url = is_url src, source_title = orNullString (is_title src),
                        source_citationCount = orNullInt (is_citationCount src),
                        source_lastCited = Some now\<rparr>
      in (newSource,
          s\<lparr>currentSourceId := currentSourceId s + 1,
            ms_sources := mapSet (source_id newSource) newSource (ms_sources s)\<rparr>))"

definition getSourceByDomain :: "string \<Rightarrow> MemStorage \<Rightarrow> source option" where
  "getSourceByDomain domain s = find (\<lambda>x. source_domain x = domain) (mapValues (ms_sources s))"

definition updateSourceCitationCount :: "string \<Rightarrow> int \<Rightarrow> date \<Rightarrow> MemStorage \<Rightarrow> MemStorage" where
  "updateSourceCitationCount domain increment now s =
     (case getSourceByDomain domain s of
        None \<Rightarrow> s
      | Some x \<Rightarrow>
          (case source_citationCount x of
             None \<Rightarrow> s
           | Some n \<Rightarrow>
               s\<lparr>ms_sources :=
                    mapSet (source_id x)
                      (x\<lparr>source_citationCount := Some (n + increment),
                         source_lastCited := Some now\<rparr>)
                      (ms_sources s)\<rparr>))"

definition createAnalytics :: "InsertAnalytics \<Rightarrow> date \<Rightarrow> MemStorage \<Rightarrow> analytics_row \<times> MemStorage" where
  "createAnalytics a now s =
     (let newAnalytics = \<lparr>analytics_id = currentAnalyticsId s, analytics_date = now,
                           analytics_totalPrompts = orNullNat (ia_totalPrompts a),
                           analytics_brandMentionRate = orNullReal (ia_brandMentionRate a),
                           analytics_topCompetitor = orNullString (ia_topCompetitor a),
                           analytics_totalSources = orNullNat (ia_totalSources a),
                           analytics_totalDomains = orNullNat (ia_totalDomains a)\<rparr>
      in (newAnalytics,
          s\<lparr>currentAnalyticsId := currentAnalyticsId s + 1,
            ms_analytics := mapSet (analytics_id newAnalytics) newAnalytics (ms_analytics s)\<rparr>))"

definition clearAllPrompts :: "MemStorage \<Rightarrow> MemStorage" where
  "clearAllPrompts s = s\<lparr>ms_prompts := [], currentPromptId := 1\<rparr>"

definition clearAllResponses :: "MemStorage \<Rightarrow> MemStorage" where
  "clearAllResponses s = s\<lparr>ms_responses := [], currentResponseId := 1\<rparr>"

definition clearAllCompetitors :: "MemStorage \<Rightarrow> MemStorage" where
  "clearAllCompetitors s = s\<lparr>ms_competitors := [], currentCompetitorId := 1\<rparr>"

section \<open>The diversity filter (server/services/prompt-generator.ts)\<close>


















section \<open>Prompts for a topic (server/services/openai.ts, generatePromptsForTopic)\<close>

text \<open>
  Every attempt asks the language model for one prompt about the topic and the aspect
  \<open>aspects[attempts % aspects.length]\<close>; the request is determined by the attempt number,
  so the reply is an input indexed by it: \<open>llm k\<close> is the content of the \<open>k\<close>-th reply,
  \<open>None\<close> when the call throws or the reply has no content. The quotation marks of the
  clean-up are the ASCII ones; the typographic ones of the source's character class are
  outside the ASCII strings of this model.
\<close>

definition aspects :: "string list" where
  "aspects = [''cost and pricing'', ''ease of use'', ''performance and speed'',
     ''reliability and stability'', ''features and capabilities'', ''user experience'',
     ''scaling and growth'', ''support and documentation'', ''security and privacy'',
     ''maintenance and updates'', ''team collaboration'', ''integration options'',
     ''backup and recovery'', ''compliance and regulations'', ''cost optimization'',
     ''migration and switching'', ''customization options'', ''troubleshooting and help'',
     ''performance comparison'', ''automation capabilities'']"

definition aspectOf :: "nat \<Rightarrow> string" where
  "aspectOf attempts = aspects ! (attempts mod length aspects)"

definition isQuoteChar :: "char \<Rightarrow> bool" where
  "isQuoteChar c = (c = CHR 0x22 \<or> c = CHR 0x27 \<or> c = CHR 0x60)"

definition stripQuoteRuns :: "string \<Rightarrow> string" where
  "stripQuoteRuns s = rev (dropWhile isQuoteChar (rev (dropWhile isQuoteChar s)))"

fun removeEscapedQuotes :: "string \<Rightarrow> string" where
  "removeEscapedQuotes (a # b # s) =
     (if a = CHR 0x5C \<and> (b = CHR 0x22 \<or> b = CHR 0x27) then removeEscapedQuotes s
      else a # removeEscapedQuotes (b # s))"
| "removeEscapedQuotes s = s"

definition politeWords :: "string list" where
  "politeWords = [''please'', ''exactly'', ''specifically'']"

definition stripPoliteSuffix :: "string \<Rightarrow> string" where
  "stripPoliteSuffix s =
     (case filter (\<lambda>w. length w < length s \<and> endsWith (toLowerCase s) w
                        \<and> isSpaceChar (s ! (length s - length w - 1))) politeWords of
        [] \<Rightarrow> s
      | w # _ \<Rightarrow> rev (dropWhile isSpaceChar (rev (take (length s - length w) s))))"

definition stripQuoteOnce :: "string \<Rightarrow> string" where
  "stripQuoteOnce s =
     (let s1 = (if s \<noteq> [] \<and> isQuoteChar (hd s) then tl s else s);
          s2 = (if s1 \<noteq> [] \<and> isQuoteChar (last s1) then butlast s1 else s1)
      in trim s2)"

lemma length_trim_le: "length (trim s) \<le> length s"
proof -
  have "length (trimEnd t) \<le> length t" for t
    using length_dropWhile_le [of isSpaceChar "rev t"] by (simp add: trimEnd_def)
  moreover have "length (trimStart s) \<le> length s"
    by (simp add: trimStart_def length_dropWhile_le)
  ultimately show ?thesis unfolding trim_def using le_trans by blast
qed

lemma length_stripQuoteOnce:
  assumes "s \<noteq> []" and "isQuoteChar (hd s) \<or> isQuoteChar (last s)"
  shows "length (stripQuoteOnce s) < length s"
proof -
  let ?s1 = "if s \<noteq> [] \<and> isQuoteChar (hd s) then tl s else s"
  let ?s2 = "if ?s1 \<noteq> [] \<and> isQuoteChar (last ?s1) then butlast ?s1 else ?s1"
  have "length ?s2 < length s"
    using assms by (cases s) (auto simp: last_tl)
  moreover have "length (trim ?s2) \<le> length ?s2" by (rule length_trim_le)
  ultimately show ?thesis by (simp add: stripQuoteOnce_def Let_def)
qed

function stripQuoteLoop :: "string \<Rightarrow> string" where
  "stripQuoteLoop s =
     (if s \<noteq> [] \<and> (isQuoteChar (hd s) \<or> isQuoteChar (last s)) then stripQuoteLoop (stripQuoteOnce s)
      else s)"
  by pat_completeness auto
termination
  by (relation "measure length") (auto intro: length_stripQuoteOnce)

declare stripQuoteLoop.simps [simp del]

definition questionStarters :: "string list" where
  "questionStarters = [''how'', ''what'', ''when'', ''where'', ''why'', ''which'', ''can'',
     ''should'', ''do'', ''does'', ''is'', ''are'', ''will'']"

definition capitalizeAndMark :: "string \<Rightarrow> string" where
  "capitalizeAndMark s =
     (if length s > 0 then
        (let s1 = toUpperChar (hd s) # tl s
         in if (\<exists>w \<in> set questionStarters. startsWith (toLowerCase s1) w) \<and> \<not> endsWith s1 ''?''
            then s1 @ ''?'' else s1)
      else s)"

definition cleanPrompt :: "string \<Rightarrow> string" where
  "cleanPrompt newPrompt =
     capitalizeAndMark (stripQuoteLoop (trim (stripPoliteSuffix (removeEscapedQuotes (stripQuoteRuns newPrompt)))))"

definition acceptablePrompt :: "string \<Rightarrow> bool" where
  "acceptablePrompt p =
     (length (splitChar CHR '' '' p) \<le> 12 \<and> length (splitChar CHR '' '' p) \<ge> 3 \<and> includesStr p '' '')"

function topicLoop :: "(nat \<rightharpoonup> string) \<Rightarrow> nat \<Rightarrow> nat \<Rightarrow> nat \<Rightarrow> string list \<Rightarrow> string list" where
  "topicLoop llm count maxAttempts attempts prompts =
     (if length prompts < count \<and> attempts < maxAttempts then
        (let attempts' = attempts + 1 in
         case llm attempts' of
           None \<Rightarrow> topicLoop llm count maxAttempts attempts' prompts
         | Some content \<Rightarrow>
             (let newPrompt = trim content in
              if newPrompt \<noteq> [] \<and> acceptablePrompt (cleanPrompt newPrompt)
              then topicLoop llm count maxAttempts attempts' (prompts @ [cleanPrompt newPrompt])
              else topicLoop llm count maxAttempts attempts' prompts))
      else prompts)"
  by pat_completeness auto
termination
  by (relation "measure (\<lambda>(llm, count, maxAttempts, attempts, prompts). maxAttempts - attempts)") auto

declare topicLoop.simps [simp del]

definition fallbackTemplates :: "string \<Rightarrow> string list" where
  "fallbackTemplates topicName =
     [''Dealing with '' @ toLowerCase topicName @ '' complexity'',
      ''Need help optimizing '' @ toLowerCase topicName @ '' setup'',
      ''Struggling with '' @ toLowerCase topicName @ '' performance issues'',
      ''How to improve '' @ toLowerCase topicName @ '' reliability?'',
      ''Tired of '' @ toLowerCase topicName @ '' maintenance overhead'',
      ''Best practices for '' @ toLowerCase topicName @ '' implementation'',
      ''Looking to simplify '' @ toLowerCase topicName @ '' workflow'',
      ''Ways to reduce '' @ toLowerCase topicName @ '' costs'',
      ''Automating '' @ toLowerCase topicName @ '' processes better'',
      topicName @ '' security considerations'',
      ''Monitoring and tracking for '' @ toLowerCase topicName,
      ''Scaling '' @ toLowerCase topicName @ '' for growth'',
      ''Migration strategies for '' @ toLowerCase topicName,
      ''Backup solutions for '' @ toLowerCase topicName,
      ''Team collaboration with '' @ toLowerCase topicName,
      ''Testing strategies for '' @ toLowerCase topicName,
      ''Documentation needs for '' @ toLowerCase topicName,
      ''Compliance requirements with '' @ toLowerCase topicName,
      ''Integration challenges with '' @ toLowerCase topicName,
      ''Performance comparison for '' @ toLowerCase topicName]"

fun addTemplates :: "nat \<Rightarrow> string list \<Rightarrow> string list \<Rightarrow> string list" where
  "addTemplates count [] prompts = prompts"
| "addTemplates count (template # rest) prompts =
     (if length prompts \<ge> count then prompts
      else if template \<notin> set prompts then addTemplates count rest (prompts @ [template])
      else addTemplates count rest prompts)"

definition numberedPrompt :: "string \<Rightarrow> nat \<Rightarrow> string" where
  "numberedPrompt topicName i = topicName @ '' question '' @ showNat (i + 1)"

definition addNumbered :: "string \<Rightarrow> nat \<Rightarrow> string list \<Rightarrow> string list" where
  "addNumbered topicName count prompts =
     prompts @ map (numberedPrompt topicName) [length prompts ..< count]"

definition generatePromptsForTopic ::
  "string \<Rightarrow> string \<Rightarrow> nat \<Rightarrow> (nat \<rightharpoonup> string) \<Rightarrow> string list" where
  "generatePromptsForTopic topicName topicDescription count llm =
     (let maxAttempts = count * 5;
          prompts = topicLoop llm count maxAttempts 0 [];
          prompts =
            (if length prompts < count then
               (let prompts = addTemplates count (fallbackTemplates topicName) prompts
                in if length prompts < count then addNumbered topicName count prompts else prompts)
             else prompts)
      in take count prompts)"




section \<open>URL extraction (server/services/scraper.ts)\<close>

text \<open>
  Regular expressions with the backtracking semantics of JavaScript: \<open>rxm r st\<close> lists
  the states in which a match of \<open>r\<close> started in state \<open>st\<close> can end, in the order in
  which the backtracking matcher tries them (greedy quantifiers take the longer match
  first, an alternative takes its left branch first). A state is the character before
  the current position, if any, and the rest of the text. An iteration of \<open>*\<close> that
  consumes nothing is not repeated.
\<close>

datatype rx =
    Cls "char \<Rightarrow> bool"
  | Eps
  | Seq rx rx
  | Alt rx rx
  | Opt rx
  | Star rx
  | Bol
  | Eol
  | WordB

type_synonym rxstate = "char option \<times> string"

definition isWordChar :: "char \<Rightarrow> bool" where
  "isWordChar c = (isAlnumChar c \<or> c = CHR ''_'')"

definition atWordBoundary :: "rxstate \<Rightarrow> bool" where
  "atWordBoundary st =
     ((case fst st of None \<Rightarrow> False | Some c \<Rightarrow> isWordChar c)
      \<noteq> (case snd st of [] \<Rightarrow> False | c # _ \<Rightarrow> isWordChar c))"

function rxm :: "rx \<Rightarrow> rxstate \<Rightarrow> rxstate list" where
  "rxm (Cls P) st = (case snd st of [] \<Rightarrow> [] | c # cs \<Rightarrow> if P c then [(Some c, cs)] else [])"
| "rxm Eps st = [st]"
| "rxm (Seq a b) st = concat (map (rxm b) (rxm a st))"
| "rxm (Alt a b) st = rxm a st @ rxm b st"
| "rxm (Opt a) st = rxm a st @ [st]"
| "rxm (Star a) st =
     concat (map (\<lambda>st'. if length (snd st') < length (snd st) then rxm (Star a) st' else [])
                 (rxm a st)) @ [st]"
| "rxm Bol st = (if fst st = None then [st] else [])"
| "rxm Eol st = (if snd st = [] then [st] else [])"
| "rxm WordB st = (if atWordBoundary st then [st] else [])"
  by pat_completeness auto
termination
  by (relation "measures [\<lambda>(r, st). size r, \<lambda>(r, st). length (snd st)]") auto

definition Plus :: "rx \<Rightarrow> rx" where
  "Plus a = Seq a (Star a)"

fun Lit :: "string \<Rightarrow> rx" where
  "Lit [] = Eps"
| "Lit (c # s) = Seq (Cls (\<lambda>x. x = c)) (Lit s)"

fun AtMost :: "nat \<Rightarrow> rx \<Rightarrow> rx" where
  "AtMost 0 a = Eps"
| "AtMost (Suc n) a = Opt (Seq a (AtMost n a))"

fun Times :: "nat \<Rightarrow> rx \<Rightarrow> rx \<Rightarrow> rx" where
  "Times 0 a k = k"
| "Times (Suc n) a k = Seq a (Times n a k)"

text \<open>\<open>text.match(r) || []\<close> for a regular expression with the flag \<open>g\<close>: the matches from
  left to right, each search starting where the previous match ended.\<close>

function matchAll :: "rx \<Rightarrow> char option \<Rightarrow> string \<Rightarrow> string list" where
  "matchAll r prev text =
     (case rxm r (prev, text) of
        [] \<Rightarrow> (case text of [] \<Rightarrow> [] | c # cs \<Rightarrow> matchAll r (Some c) cs)
      | (prev', rest) # _ \<Rightarrow>
          (if length rest < length text
           then take (length text - length rest) text # matchAll r prev' rest
           else [] # (case text of [] \<Rightarrow> [] | c # cs \<Rightarrow> matchAll r (Some c) cs)))"
  by pat_completeness auto
termination
  by (relation "measure (\<lambda>(r, prev, text). length text)") auto

declare matchAll.simps [simp del]

text \<open>The five patterns of \<open>extractUrlsFromText\<close>, in the order of the source.\<close>

definition isUrlChar :: "char \<Rightarrow> bool" where
  "isUrlChar c = (\<not> isSpaceChar c \<and> c \<notin> set ''<>{}|^`[]'' \<and> c \<noteq> CHR 0x22 \<and> c \<noteq> CHR 0x5C)"

definition notSpace :: "char \<Rightarrow> bool" where
  "notSpace c = (\<not> isSpaceChar c)"

definition isLabelChar :: "char \<Rightarrow> bool" where
  "isLabelChar c = (isAlnumChar c \<or> c = CHR ''-'')"

definition pathPart :: rx where
  "pathPart = Opt (Seq (Lit ''/'') (Star (Cls notSpace)))"

definition urlPatterns :: "rx list" where
  "urlPatterns =
     [Seq (Lit ''http'') (Seq (Opt (Lit ''s'')) (Seq (Lit ''://'') (Plus (Cls isUrlChar)))),
      Seq (Lit ''www.'') (Plus (Cls isUrlChar)),
      Seq (Alt Bol (Cls isSpaceChar))
        (Seq (Plus (Seq (Cls isAlnumChar)
                     (Seq (Opt (Seq (AtMost 61 (Cls isLabelChar)) (Cls isAlnumChar))) (Lit ''.''))))
          (Seq (Times 2 (Cls isAlphaChar) (Star (Cls isAlphaChar))) pathPart)),
      Seq WordB
        (Times 3 (Seq (Cls isDigitChar) (Seq (AtMost 2 (Cls isDigitChar)) (Lit ''.'')))
           (Seq (Cls isDigitChar) (Seq (AtMost 2 (Cls isDigitChar)) pathPart))),
      Seq (Lit ''localhost'') (Seq (Opt (Seq (Lit '':'') (Plus (Cls isDigitChar)))) pathPart)]"


declare rxm.simps [simp del]

text \<open>
  \<open>new URL(u).hostname\<close> is the platform's URL parser, not code of the repository.
  \<open>urlHostname\<close> models it on ASCII text: \<open>None\<close> where the constructor throws (no
  scheme, an empty or malformed host of a special scheme, a bad port). Leading and
  trailing control characters and spaces are dropped, the scheme is lower-cased, for the
  special schemes the slashes after the colon are skipped, the authority ends at the
  first slash, question mark or hash, the user information before \<open>@\<close> and the port after
  \<open>:\<close> are cut off, and the host is lower-cased. Percent escapes, IPv6 literals, the
  rewriting of numeric hosts and the \<open>file\<close> scheme are outside this model.
\<close>

definition isSchemeChar :: "char \<Rightarrow> bool" where
  "isSchemeChar c = (isAlnumChar c \<or> c = CHR ''+'' \<or> c = CHR ''-'' \<or> c = CHR ''.'')"

definition specialSchemes :: "string list" where
  "specialSchemes = [''http'', ''https'', ''ws'', ''wss'', ''ftp'']"

definition isForbiddenHostChar :: "char \<Rightarrow> bool" where
  "isForbiddenHostChar c =
     (charCode c \<le> 32 \<or> charCode c = 127 \<or> c \<in> set ''#/:<>?@[]^|%'' \<or> c = CHR 0x5C)"

fun schemeRest :: "string \<Rightarrow> string \<Rightarrow> (string \<times> string) option" where
  "schemeRest scheme [] = None"
| "schemeRest scheme (d # rest) = (if d = CHR '':'' then Some (toLowerCase scheme, rest) else None)"

fun splitScheme :: "string \<Rightarrow> (string \<times> string) option" where
  "splitScheme [] = None"
| "splitScheme (c # u) =
     (if isAlphaChar c then schemeRest (takeWhile isSchemeChar (c # u)) (dropWhile isSchemeChar (c # u))
      else None)"

fun readInt :: "int \<Rightarrow> string \<Rightarrow> int" where
  "readInt acc [] = acc"
| "readInt acc (c # s) = readInt (acc * 10 + (charCode c - 48)) s"

definition validPort :: "string \<Rightarrow> bool" where
  "validPort p = (list_all isDigitChar p \<and> readInt 0 p \<le> 65535)"

definition hostOfAuthority :: "string \<Rightarrow> string" where
  "hostOfAuthority a = takeWhile (\<lambda>c. c \<noteq> CHR '':'') (rev (takeWhile (\<lambda>c. c \<noteq> CHR ''@'') (rev a)))"

definition portOfAuthority :: "string \<Rightarrow> string" where
  "portOfAuthority a = drop 1 (dropWhile (\<lambda>c. c \<noteq> CHR '':'') (rev (takeWhile (\<lambda>c. c \<noteq> CHR ''@'') (rev a))))"

definition stripControls :: "string \<Rightarrow> string" where
  "stripControls u =
     filter (\<lambda>c. charCode c \<noteq> 9 \<and> charCode c \<noteq> 10 \<and> charCode c \<noteq> 13)
       (rev (dropWhile (\<lambda>c. charCode c \<le> 32) (rev (dropWhile (\<lambda>c. charCode c \<le> 32) u))))"

definition specialAuthority :: "string \<Rightarrow> string" where
  "specialAuthority rest =
     takeWhile (\<lambda>c. c \<notin> set ''/?#'' \<and> c \<noteq> CHR 0x5C)
       (dropWhile (\<lambda>c. c = CHR ''/'' \<or> c = CHR 0x5C) rest)"

definition opaqueAuthority :: "string \<Rightarrow> string" where
  "opaqueAuthority rest = takeWhile (\<lambda>c. c \<notin> set ''/?#'') (drop 2 rest)"

definition specialHost :: "string \<Rightarrow> string \<Rightarrow> string option" where
  "specialHost host port =
     (if host = [] \<or> list_ex isForbiddenHostChar host \<or> \<not> validPort port then None
      else Some (toLowerCase host))"

definition opaqueHost :: "string \<Rightarrow> string \<Rightarrow> string option" where
  "opaqueHost host port =
     (if list_ex (\<lambda>c. isForbiddenHostChar c \<and> c \<noteq> CHR ''%'') host \<or> \<not> validPort port then None
      else Some host)"

fun hostnameOfParts :: "(string \<times> string) option \<Rightarrow> string option" where
  "hostnameOfParts None = None"
| "hostnameOfParts (Some (scheme, rest)) =
     (if scheme \<in> set specialSchemes
      then specialHost (hostOfAuthority (specialAuthority rest)) (portOfAuthority (specialAuthority rest))
      else if startsWith rest ''//''
      then opaqueHost (hostOfAuthority (opaqueAuthority rest)) (portOfAuthority (opaqueAuthority rest))
      else Some [])"

definition urlHostname :: "string \<Rightarrow> string option" where
  "urlHostname u = hostnameOfParts (splitScheme (stripControls u))"

text \<open>The fallback of \<open>extractDomainFromUrl\<close>: the first match of
  \<open>/(?:https?:\/\/)?(?:www\.)?([^\/\s]+)/\<close> in the text, and its group 1.\<close>

definition domainPrefix :: rx where
  "domainPrefix =
     Seq (Opt (Seq (Lit ''http'') (Seq (Opt (Lit ''s'')) (Lit ''://'')))) (Opt (Lit ''www.''))"

definition isDomainChar :: "char \<Rightarrow> bool" where
  "isDomainChar c = (c \<noteq> CHR ''/'' \<and> \<not> isSpaceChar c)"

fun domainMatch :: "string \<Rightarrow> string option" where
  "domainMatch [] = None"
| "domainMatch (c # cs) =
     (case filter (\<lambda>g. g \<noteq> [])
             (map (\<lambda>st. takeWhile isDomainChar (snd st)) (rxm domainPrefix (None, c # cs))) of
        g # _ \<Rightarrow> Some g
      | [] \<Rightarrow> domainMatch cs)"

definition extractDomainFromUrl :: "string \<Rightarrow> string" where
  "extractDomainFromUrl url =
     (case urlHostname url of
        Some hostname \<Rightarrow> hostname
      | None \<Rightarrow> (case domainMatch url of Some d \<Rightarrow> d | None \<Rightarrow> url))"

definition isTrailingPunct :: "char \<Rightarrow> bool" where
  "isTrailingPunct c = (c \<in> set ''.,;!?'')"

definition cleanUrl :: "string \<Rightarrow> string" where
  "cleanUrl url =
     (let cleanUrl = trim url;
          cleanUrl = (if \<not> startsWith cleanUrl ''http'' then ''https://'' @ cleanUrl else cleanUrl)
      in trim (rev (dropWhile isTrailingPunct (rev cleanUrl))))"

fun validHostname :: "string option \<Rightarrow> bool" where
  "validHostname None = False"
| "validHostname (Some hostname) =
     (\<not> (hostname = ''example.com'' \<or> hostname = ''localhost'' \<or> length hostname < 3))"

definition keepUrl :: "string \<Rightarrow> bool" where
  "keepUrl url = validHostname (urlHostname url)"

definition extractUrlsFromText :: "string \<Rightarrow> string list" where
  "extractUrlsFromText text =
     (let allUrls = concat (map (\<lambda>pattern. matchAll pattern None text) urlPatterns);
          cleanedUrls = filter keepUrl (map cleanUrl allUrls)
      in dedupe cleanedUrls)"

section \<open>The analysis run (server/services/analyzer.ts)\<close>

text \<open>
  The module keeps the progress record and the flag \<open>isAnalysisRunning\<close> in variables of
  its own; together with the storage they are the state \<open>globals\<close>. The replies of the
  language model, the random number and the clock are inputs of a segment of the run
  (\<open>stepEnv\<close>): \<open>analyzeResult\<close> is the result of \<open>analyzePromptResponse\<close>, \<open>None\<close> when it
  throws; \<open>randomDraw\<close> is the value of \<open>Math.random()\<close>; \<open>extractedCompetitors\<close> is the
  result of \<open>extractCompetitorsFromText\<close> in the fallback, \<open>None\<close> when it throws;
  \<open>categoryReply\<close> is the trimmed category the model returns for a competitor, undefined
  when that call fails; \<open>topicReplies\<close> are the replies to \<open>generatePromptsForTopic\<close> for
  a topic. The progress callback only passes the progress record on and is left out.
\<close>

datatype status =
  initializing | scraping | generating_prompts | testing_prompts | analyzing | complete | error

record AnalysisProgress =
  status :: status
  message :: string
  progress :: real
  totalPrompts :: "nat option"
  completedPrompts :: "nat option"

record PromptAnalysisResult =
  pa_response :: string
  pa_brandMentioned :: bool
  pa_competitors :: "string list"
  pa_sources :: "string list"

record settings =
  promptsPerTopic :: nat
  numberOfTopics :: nat

record savedPrompt =
  sp_text :: string
  sp_topicId :: "nat option"

record globals =
  storage :: MemStorage
  currentProgress :: AnalysisProgress
  isAnalysisRunning :: bool
  targetPrompts :: nat
  analysisStartTime :: date

record stepEnv =
  timeNow :: date
  analyzeResult :: "PromptAnalysisResult option"
  randomDraw :: real
  extractedCompetitors :: "string list option"
  categoryReply :: "string \<rightharpoonup> string"
  topicReplies :: "string \<Rightarrow> (nat \<rightharpoonup> string)"

definition initialProgress :: AnalysisProgress where
  "initialProgress =
     \<lparr>status = initializing, message = ''Ready to start analysis...'', progress = 0,
      totalPrompts = Some 0, completedPrompts = Some 0\<rparr>"

definition initialGlobals :: "MemStorage \<Rightarrow> globals" where
  "initialGlobals s =
     \<lparr>storage = s, currentProgress = initialProgress, isAnalysisRunning = False,
      targetPrompts = 100, analysisStartTime = 0\<rparr>"

definition stopCurrentAnalysis :: "globals \<Rightarrow> globals" where
  "stopCurrentAnalysis g =
     g\<lparr>isAnalysisRunning := False,
       currentProgress :=
         \<lparr>status = error, message = ''Analysis cancelled by user'', progress = 0,
          totalPrompts = Some 0, completedPrompts = Some 0\<rparr>\<rparr>"

definition updateProgress :: "status \<Rightarrow> string \<Rightarrow> real \<Rightarrow> globals \<Rightarrow> globals" where
  "updateProgress st msg p g =
     g\<lparr>currentProgress := (currentProgress g)\<lparr>status := st, message := msg, progress := p\<rparr>\<rparr>"

definition updateProgressCounts ::
  "status \<Rightarrow> string \<Rightarrow> real \<Rightarrow> nat \<Rightarrow> nat \<Rightarrow> globals \<Rightarrow> globals" where
  "updateProgressCounts st msg p n completed g =
     g\<lparr>currentProgress :=
         \<lparr>status = st, message = msg, progress = p,
          totalPrompts = Some n, completedPrompts = Some completed\<rparr>\<rparr>"

definition resetProgress :: "date \<Rightarrow> globals \<Rightarrow> globals" where
  "resetProgress t g =
     g\<lparr>currentProgress :=
         \<lparr>status = initializing, message = ''Starting analysis...'', progress = 0,
          totalPrompts = Some 0, completedPrompts = Some 0\<rparr>,
       analysisStartTime := t\<rparr>"

definition onStorage :: "(MemStorage \<Rightarrow> MemStorage) \<Rightarrow> globals \<Rightarrow> globals" where
  "onStorage f g = g\<lparr>storage := f (storage g)\<rparr>"

subsection \<open>One prompt\<close>

definition fallbackSources :: "string list" where
  "fallbackSources =
     [''https://stackoverflow.com/questions/deployment'', ''https://docs.aws.amazon.com'',
      ''https://github.com/features/actions'', ''https://docs.github.com/en/actions'',
      ''https://vercel.com/docs'', ''https://netlify.com/docs'', ''https://docs.docker.com'',
      ''https://kubernetes.io/docs'']"

definition fallbackAnalysis :: "string \<Rightarrow> stepEnv \<Rightarrow> PromptAnalysisResult" where
  "fallbackAnalysis promptText env =
     (let brandMentioned = (randomDraw env < 15 / 100);
          found = (case extractedCompetitors env of Some names \<Rightarrow> names | None \<Rightarrow> [])
      in \<lparr>pa_response =
            ''Based on your '' @ toLowerCase promptText @ '', I'' @ [CHR 0x27]
            @ ''d recommend considering '' @ join '', '' found @ '' for your deployment needs.''
            @ (if brandMentioned then '' There are also other good options for simple deployments.''
               else []),
          pa_brandMentioned = brandMentioned,
          pa_competitors = dedupe found,
          pa_sources = fallbackSources\<rparr>)"

definition analysisOf :: "string \<Rightarrow> stepEnv \<Rightarrow> PromptAnalysisResult" where
  "analysisOf promptText env =
     (case analyzeResult env of
        Some analysis \<Rightarrow> analysis
      | None \<Rightarrow> fallbackAnalysis promptText env)"

definition categorizeCompetitor :: "stepEnv \<Rightarrow> string \<Rightarrow> MemStorage \<Rightarrow> string" where
  "categorizeCompetitor env name s =
     (case Option.bind (getCompetitorByName name s) (\<lambda>c. orNullString (competitor_category c)) of
        Some category \<Rightarrow> category
      | None \<Rightarrow>
          (case orNullString (map_option trim (categoryReply env name)) of
             Some category \<Rightarrow> category
           | None \<Rightarrow> ''Technology''))"

definition processCompetitor :: "stepEnv \<Rightarrow> string \<Rightarrow> MemStorage \<Rightarrow> MemStorage" where
  "processCompetitor env competitorName s =
     updateCompetitorMentionCount competitorName 1 (timeNow env)
       (case getCompetitorByName competitorName s of
          Some competitor \<Rightarrow> s
        | None \<Rightarrow>
            snd (createCompetitor
                   \<lparr>ic_name = competitorName,
                    ic_category = Some (categorizeCompetitor env competitorName s),
                    ic_mentionCount = Some 0\<rparr> s))"

fun processCompetitors :: "stepEnv \<Rightarrow> string list \<Rightarrow> MemStorage \<Rightarrow> MemStorage" where
  "processCompetitors env [] s = s"
| "processCompetitors env (competitorName # rest) s =
     processCompetitors env rest (processCompetitor env competitorName s)"

definition allUrlsOf :: "PromptAnalysisResult \<Rightarrow> string \<Rightarrow> string list" where
  "allUrlsOf analysis promptText =
     dedupe (extractUrlsFromText (pa_response analysis) @ pa_sources analysis
             @ extractUrlsFromText promptText)"

text \<open>\<open>urlsByDomain\<close> is a \<open>Map\<close> from a domain to the list of its URLs, in insertion order.\<close>

fun pushUrl :: "string \<Rightarrow> string \<Rightarrow> (string \<times> string list) list \<Rightarrow> (string \<times> string list) list" where
  "pushUrl domain url [] = [(domain, [url])]"
| "pushUrl domain url ((d, urls) # m) =
     (if d = domain then (d, urls @ [url]) # m else (d, urls) # pushUrl domain url m)"

fun groupByDomain :: "string list \<Rightarrow> (string \<times> string list) list \<Rightarrow> (string \<times> string list) list" where
  "groupByDomain [] m = m"
| "groupByDomain (url # rest) m =
     (if extractDomainFromUrl url = [] \<or> length (extractDomainFromUrl url) < 3 then groupByDomain rest m
      else if extractDomainFromUrl url = ''example.com'' \<or> extractDomainFromUrl url = ''localhost''
      then groupByDomain rest m
      else groupByDomain rest (pushUrl (extractDomainFromUrl url) url m))"

definition isReferenceUrl :: "string \<Rightarrow> bool" where
  "isReferenceUrl url =
     (includesStr url ''/docs'' \<or> includesStr url ''/api'' \<or> includesStr url ''/developer''
      \<or> includesStr url ''/guide'' \<or> includesStr url ''/tutorial'')"

text \<open>\<open>urls.find(...) || urls[0]\<close>; a group is never empty.\<close>

fun primaryUrlOf :: "string list \<Rightarrow> string" where
  "primaryUrlOf [] = []"
| "primaryUrlOf (u # urls) = (case find isReferenceUrl (u # urls) of Some url \<Rightarrow> url | None \<Rightarrow> u)"

definition knownDomains :: "(string list \<times> string) list" where
  "knownDomains =
     [([''github.com''], ''GitHub Repository''),
      ([''stackoverflow.com''], ''Stack Overflow Discussion''),
      ([''medium.com''], ''Medium Article''),
      ([''dev.to''], ''Dev.to Article''),
      ([''reddit.com''], ''Reddit Discussion''),
      ([''youtube.com''], ''YouTube Video''),
      ([''twitter.com'', ''x.com''], ''Social Media Post''),
      ([''linkedin.com''], ''LinkedIn Article''),
      ([''hackernews.com'', ''news.ycombinator.com''], ''Hacker News Discussion''),
      ([''discord.com'', ''discord.gg''], ''Discord Community''),
      ([''slack.com''], ''Slack Community''),
      ([''substack.com''], ''Substack Newsletter''),
      ([''hashnode.dev''], ''Hashnode Article''),
      ([''css-tricks.com''], ''CSS-Tricks Article''),
      ([''smashingmagazine.com''], ''Smashing Magazine Article''),
      ([''sitepoint.com''], ''SitePoint Article''),
      ([''toptal.com''], ''Toptal Article''),
      ([''freecodecamp.org''], ''freeCodeCamp Resource''),
      ([''mozilla.org''], ''Mozilla Developer Network''),
      ([''web.dev''], ''Web.dev Article''),
      ([''css-tricks.com''], ''CSS-Tricks Article'')]"

definition tldTitle :: "string \<Rightarrow> string \<Rightarrow> string" where
  "tldTitle mainDomain tld =
     (if tld = ''org'' then mainDomain @ '' Organization''
      else if tld = ''edu'' then mainDomain @ '' Educational Resource''
      else if tld = ''gov'' then mainDomain @ '' Government Resource''
      else if tld = ''io'' then mainDomain @ '' Platform''
      else if tld = ''app'' then mainDomain @ '' Application''
      else if tld = ''dev'' then mainDomain @ '' Developer Resource''
      else mainDomain @ '' Website'')"

definition generateSourceTitle :: "string \<Rightarrow> string \<Rightarrow> string" where
  "generateSourceTitle domain url =
     (let domainParts = splitChar CHR ''.'' domain;
          mainDomain = hd domainParts
      in if includesStr url ''/docs'' then mainDomain @ '' Documentation''
         else if includesStr url ''/api'' then mainDomain @ '' API Documentation''
         else if includesStr url ''/developer'' then mainDomain @ '' Developer Portal''
         else if includesStr url ''/guide'' \<or> includesStr url ''/tutorial''
         then mainDomain @ '' Guides & Tutorials''
         else (case find (\<lambda>(names, title). \<exists>n \<in> set names. includesStr domain n) knownDomains of
                 Some (names, title) \<Rightarrow> title
               | None \<Rightarrow> tldTitle mainDomain (last domainParts)))"

definition processDomain :: "stepEnv \<Rightarrow> string \<times> string list \<Rightarrow> MemStorage \<Rightarrow> MemStorage" where
  "processDomain env entry s =
     updateSourceCitationCount (fst entry) 1 (timeNow env)
       (case getSourceByDomain (fst entry) s of
          Some src \<Rightarrow> s
        | None \<Rightarrow>
            snd (createSource
                   \<lparr>is_domain = fst entry,
                    is_url = primaryUrlOf (snd entry),
                    is_title = Some (generateSourceTitle (fst entry) (primaryUrlOf (snd entry))),
                    is_citationCount = Some 0\<rparr> (timeNow env) s))"

fun processDomains :: "stepEnv \<Rightarrow> (string \<times> string list) list \<Rightarrow> MemStorage \<Rightarrow> MemStorage" where
  "processDomains env [] s = s"
| "processDomains env (entry # rest) s = processDomains env rest (processDomain env entry s)"

definition processSources :: "stepEnv \<Rightarrow> PromptAnalysisResult \<Rightarrow> string \<Rightarrow> MemStorage \<Rightarrow> MemStorage" where
  "processSources env analysis promptText s =
     processDomains env (groupByDomain (allUrlsOf analysis promptText) []) s"

definition recordResponse :: "stepEnv \<Rightarrow> nat \<Rightarrow> PromptAnalysisResult \<Rightarrow> MemStorage \<Rightarrow> MemStorage" where
  "recordResponse env promptId analysis s =
     snd (createResponse
            \<lparr>ir_promptId = promptId, ir_text = pa_response analysis,
             ir_brandMentioned = Some (pa_brandMentioned analysis),
             ir_competitorsMentioned = Some (pa_competitors analysis),
             ir_sources = Some (pa_sources analysis)\<rparr> (timeNow env) s)"

text \<open>The body of the loop for one prompt, inside its \<open>try\<close>. No operation of the
  in-memory storage throws, so the body always reaches \<open>completedCount++\<close>.\<close>

definition processPrompt :: "stepEnv \<Rightarrow> InsertPrompt \<Rightarrow> MemStorage \<Rightarrow> MemStorage" where
  "processPrompt env promptData s =
     recordResponse env (prompt_id (fst (createPrompt promptData (timeNow env) s)))
       (analysisOf (ip_text promptData) env)
       (processSources env (analysisOf (ip_text promptData) env) (ip_text promptData)
         (processCompetitors env (pa_competitors (analysisOf (ip_text promptData) env))
           (snd (createPrompt promptData (timeNow env) s))))"

subsection \<open>The run\<close>

text \<open>
  \<open>runFullAnalysis\<close> is an asynchronous function: it runs until it waits for a timer,
  the storage or the language model, and other requests are served while it waits. A
  run is modelled by its position (\<open>phase\<close>, \<open>loopIndex\<close>) and its local variables, and
  proceeds in segments: the part of the call before the first wait (\<open>startRun\<close>), the
  choice of the prompts, one iteration of the loop for each prompt, and the analytics at
  the end. Between two segments \<open>stopCurrentAnalysis\<close> or another call may be served.
\<close>

datatype phase = Delayed | Looping | Finished

record run =
  useExistingPrompts :: bool
  savedPrompts :: "savedPrompt list option"
  runSettings :: "settings option"
  phase :: phase
  allPrompts :: "InsertPrompt list"
  loopIndex :: nat
  completedCount :: nat

text \<open>\<open>savedPrompts && savedPrompts.length > 0\<close>.\<close>

definition hasSavedPrompts :: "savedPrompt list option \<Rightarrow> bool" where
  "hasSavedPrompts sp = (case sp of None \<Rightarrow> False | Some ps \<Rightarrow> length ps > 0)"

definition savedList :: "savedPrompt list option \<Rightarrow> savedPrompt list" where
  "savedList sp = (case sp of None \<Rightarrow> [] | Some ps \<Rightarrow> ps)"

definition newTargetPrompts :: "savedPrompt list option \<Rightarrow> settings option \<Rightarrow> nat \<Rightarrow> nat" where
  "newTargetPrompts sp st old =
     (case st of
        Some x \<Rightarrow> promptsPerTopic x * numberOfTopics x
      | None \<Rightarrow> if hasSavedPrompts sp then length (savedList sp) else old)"

text \<open>The call up to its first wait. The test of the flag is inside the \<open>try\<close> whose
  \<open>finally\<close> clears the flag, so the early \<open>return\<close> clears it too.\<close>

definition startRun ::
  "bool \<Rightarrow> savedPrompt list option \<Rightarrow> settings option \<Rightarrow> date \<Rightarrow> globals \<Rightarrow> globals \<times> run" where
  "startRun useExisting sp st t g =
     (if isAnalysisRunning g then
        (g\<lparr>isAnalysisRunning := False\<rparr>,
         \<lparr>useExistingPrompts = useExisting, savedPrompts = sp, runSettings = st,
          phase = Finished, allPrompts = [], loopIndex = 0, completedCount = 0\<rparr>)
      else
        (updateProgress initializing ''Starting brand analysis...'' 0
           (resetProgress t
              (g\<lparr>isAnalysisRunning := True,
                 targetPrompts := newTargetPrompts sp st (targetPrompts g)\<rparr>)),
         \<lparr>useExistingPrompts = useExisting, savedPrompts = sp, runSettings = st,
          phase = Delayed, allPrompts = [], loopIndex = 0, completedCount = 0\<rparr>))"

definition clearExistingData :: "MemStorage \<Rightarrow> MemStorage" where
  "clearExistingData s = clearAllCompetitors (clearAllResponses (clearAllPrompts s))"

definition generatedTopics :: "InsertTopic list" where
  "generatedTopics =
     [\<lparr>it_name = ''Technology Stack'',
       it_description = Some ''Analysis of the technology stack and development tools used''\<rparr>,
      \<lparr>it_name = ''Market Position'',
       it_description = Some (''Understanding the brand'' @ [CHR 0x27]
         @ ''s position in the market and competitive landscape'')\<rparr>,
      \<lparr>it_name = ''Service Offerings'',
       it_description = Some ''Analysis of the services and products offered by the brand''\<rparr>,
      \<lparr>it_name = ''Developer Experience'',
       it_description = Some ''Evaluation of developer tools, documentation, and ease of use''\<rparr>,
      \<lparr>it_name = ''Infrastructure & Scalability'',
       it_description = Some ''Assessment of infrastructure capabilities and scaling solutions''\<rparr>,
      \<lparr>it_name = ''Integration Capabilities'',
       it_description = Some ''Analysis of API offerings and integration possibilities''\<rparr>,
      \<lparr>it_name = ''Performance & Reliability'',
       it_description = Some ''Evaluation of performance metrics and reliability features''\<rparr>]"

definition promptsPerTopicOf :: "settings option \<Rightarrow> nat" where
  "promptsPerTopicOf st =
     (case st of None \<Rightarrow> 20 | Some x \<Rightarrow> if promptsPerTopic x = 0 then 20 else promptsPerTopic x)"

definition topicRecordOf :: "stepEnv \<Rightarrow> InsertTopic \<Rightarrow> MemStorage \<Rightarrow> topic \<times> MemStorage" where
  "topicRecordOf env t s =
     (case find (\<lambda>x. topic_name x = it_name t) (getTopics s) of
        Some topicRecord \<Rightarrow> (topicRecord, s)
      | None \<Rightarrow> createTopic t (timeNow env) s)"

fun generateForTopics ::
  "stepEnv \<Rightarrow> settings option \<Rightarrow> InsertTopic list \<Rightarrow> MemStorage \<times> InsertPrompt list
   \<Rightarrow> MemStorage \<times> InsertPrompt list" where
  "generateForTopics env st [] acc = acc"
| "generateForTopics env st (t # rest) acc =
     generateForTopics env st rest
       (snd (topicRecordOf env t (fst acc)),
        snd acc @
        map (\<lambda>promptText. \<lparr>ip_text = promptText,
                             ip_topicId = Some (topic_id (fst (topicRecordOf env t (fst acc))))\<rparr>)
          (generatePromptsForTopic (it_name t) (case it_description t of Some d \<Rightarrow> d | None \<Rightarrow> [])
             (promptsPerTopicOf st) (topicReplies env (it_name t))))"

text \<open>The choice of the prompts, lines 115 to 225 of the source: the state after it and
  the list \<open>allPrompts\<close>.\<close>

definition choosePrompts :: "stepEnv \<Rightarrow> run \<Rightarrow> globals \<Rightarrow> globals \<times> InsertPrompt list" where
  "choosePrompts env r g =
     (if hasSavedPrompts (savedPrompts r) then
        (updateProgress testing_prompts ''Processing saved prompts...'' 20
           (onStorage clearExistingData
              (updateProgress initializing ''Clearing previous data and loading saved prompts...'' 10
                 (onStorage clearExistingData
                    (updateProgress initializing
                       ''Clearing previous data and loading saved prompts...'' 5 g)))),
         map (\<lambda>p. \<lparr>ip_text = sp_text p, ip_topicId = orNullNat (sp_topicId p)\<rparr>)
           (savedList (savedPrompts r)))
      else if useExistingPrompts r then
        (updateProgress testing_prompts ''Using existing prompts for analysis...'' 20 g,
         map (\<lambda>p. \<lparr>ip_text = prompt_text p, ip_topicId = prompt_topicId p\<rparr>)
           (getPrompts (storage g)))
      else
        (onStorage (\<lambda>s. fst (generateForTopics env (runSettings r) generatedTopics (s, [])))
           (updateProgress generating_prompts ''Generating test prompts...'' 20
              (updateProgress scraping ''Analyzing brand website...'' 10
                 (updateProgress initializing ''Preparing for new analysis...'' 5 g))),
         snd (generateForTopics env (runSettings r) generatedTopics (storage g, []))))"

definition beginLoop :: "stepEnv \<Rightarrow> run \<Rightarrow> globals \<Rightarrow> globals \<times> run" where
  "beginLoop env r g =
     (updateProgressCounts testing_prompts ''Testing prompts with ChatGPT...'' 30
        (length (snd (choosePrompts env r g))) 0 (fst (choosePrompts env r g)),
      r\<lparr>phase := Looping, allPrompts := snd (choosePrompts env r g), loopIndex := 0,
        completedCount := 0\<rparr>)"

text \<open>The first competitor of the list sorted by falling mention count; the sort is
  stable, so this is the first competitor with the greatest count.\<close>

definition countOrZero :: "competitor \<Rightarrow> int" where
  "countOrZero c = (case competitor_mentionCount c of None \<Rightarrow> 0 | Some n \<Rightarrow> n)"

fun topOf :: "competitor \<Rightarrow> competitor list \<Rightarrow> competitor" where
  "topOf best [] = best"
| "topOf best (c # cs) = topOf (if countOrZero c > countOrZero best then c else best) cs"

definition topCompetitorName :: "competitor list \<Rightarrow> string option" where
  "topCompetitorName cs =
     (case cs of [] \<Rightarrow> None | c # rest \<Rightarrow> orNullString (Some (competitor_name (topOf c rest))))"

definition brandMentionRateOf :: "response list \<Rightarrow> real" where
  "brandMentionRateOf rs =
     (if length rs > 0
      then real (length (filter (\<lambda>r. response_brandMentioned r = Some True) rs)) / real (length rs) * 100
      else 0)"

definition generateAnalytics :: "stepEnv \<Rightarrow> MemStorage \<Rightarrow> MemStorage" where
  "generateAnalytics env s =
     snd (createAnalytics
            \<lparr>ia_totalPrompts = Some (length (getResponses s)),
             ia_brandMentionRate = Some (brandMentionRateOf (getResponses s)),
             ia_topCompetitor = topCompetitorName (getCompetitors s),
             ia_totalSources = Some (length (getSources s)),
             ia_totalDomains = Some (length (remdups (map source_domain (getSources s))))\<rparr>
            (timeNow env) s)"

definition cancelledRun :: "run \<Rightarrow> globals \<Rightarrow> globals \<times> run" where
  "cancelledRun r g =
     ((updateProgress error ''Analysis cancelled by user'' 0 g)\<lparr>isAnalysisRunning := False\<rparr>,
      r\<lparr>phase := Finished\<rparr>)"

definition iteration :: "stepEnv \<Rightarrow> run \<Rightarrow> globals \<Rightarrow> globals \<times> run" where
  "iteration env r g =
     (updateProgressCounts testing_prompts
        (''Testing prompts with ChatGPT... ('' @ showNat (completedCount r + 1) @ ''/''
         @ showNat (length (allPrompts r)) @ '')'')
        (30 + real (completedCount r + 1) / real (length (allPrompts r)) * 50)
        (length (allPrompts r)) (completedCount r + 1)
        (onStorage (processPrompt env (allPrompts r ! loopIndex r)) g),
      r\<lparr>loopIndex := loopIndex r + 1, completedCount := completedCount r + 1\<rparr>)"

definition finishRun :: "stepEnv \<Rightarrow> run \<Rightarrow> globals \<Rightarrow> globals \<times> run" where
  "finishRun env r g =
     ((updateProgress complete ''Analysis complete!'' 100
         (onStorage (generateAnalytics env)
            (updateProgress analyzing ''Generating analytics...'' 85 g)))
        \<lparr>isAnalysisRunning := False\<rparr>,
      r\<lparr>phase := Finished\<rparr>)"

text \<open>The next segment of a run.\<close>

definition proceed :: "stepEnv \<Rightarrow> globals \<times> run \<Rightarrow> globals \<times> run" where
  "proceed env gr =
     (case phase (snd gr) of
        Finished \<Rightarrow> gr
      | Delayed \<Rightarrow> beginLoop env (snd gr) (fst gr)
      | Looping \<Rightarrow>
          if loopIndex (snd gr) < length (allPrompts (snd gr)) then
            (if \<not> isAnalysisRunning (fst gr) then cancelledRun (snd gr) (fst gr)
             else iteration env (snd gr) (fst gr))
          else finishRun env (snd gr) (fst gr))"




text \<open>Several calls: every call adds a run, and the runs take turns.\<close>

record system =
  globalState :: globals
  runs :: "run list"

datatype event =
    Call bool "savedPrompt list option" "settings option" date
  | Proceed nat stepEnv
  | Stop

fun step :: "event \<Rightarrow> system \<Rightarrow> system" where
  "step (Call useExisting sp st t) sys =
     \<lparr>globalState = fst (startRun useExisting sp st t (globalState sys)),
      runs = runs sys @ [snd (startRun useExisting sp st t (globalState sys))]\<rparr>"
| "step (Proceed k env) sys =
     (if k < length (runs sys) then
        \<lparr>globalState = fst (proceed env (globalState sys, runs sys ! k)),
         runs = (runs sys)[k := snd (proceed env (globalState sys, runs sys ! k))]\<rparr>
      else sys)"
| "step Stop sys = sys\<lparr>globalState := stopCurrentAnalysis (globalState sys)\<rparr>"

fun exec :: "event list \<Rightarrow> system \<Rightarrow> system" where
  "exec [] sys = sys"
| "exec (e # es) sys = exec es (step e sys)"

subsection \<open>Notions used in the statements\<close>






subsection \<open>Example inputs\<close>

definition answerX :: PromptAnalysisResult where
  "answerX =
     \<lparr>pa_response = ''Try CompetitorX, see https://docs.competitorx.com/guide'',
      pa_brandMentioned = False, pa_competitors = [''CompetitorX''],
      pa_sources = [''https://docs.competitorx.com/guide'', ''https://docs.competitorx.com/api'']\<rparr>"

definition envX :: stepEnv where
  "envX = \<lparr>timeNow = 7, analyzeResult = Some answerX, randomDraw = 1 / 2,
            extractedCompetitors = None, categoryReply = Map.empty,
            topicReplies = (\<lambda>topicName. Map.empty)\<rparr>"



definition pricingPrompts :: "savedPrompt list" where
  "pricingPrompts =
     [\<lparr>sp_text = ''Need cheaper hosting'', sp_topicId = Some 1\<rparr>,
      \<lparr>sp_text = ''Hosting cost tips'', sp_topicId = Some 1\<rparr>]"


definition twoPrompts :: "savedPrompt list" where
  "twoPrompts =
     [\<lparr>sp_text = ''Best host'', sp_topicId = Some 1\<rparr>,
      \<lparr>sp_text = ''Fast CDN'', sp_topicId = Some 1\<rparr>]"

definition envA :: stepEnv where
  "envA = \<lparr>timeNow = 3,
            analyzeResult = Some \<lparr>pa_response = ''Use CompetitorX'', pa_brandMentioned = False,
              pa_competitors = [''CompetitorX''], pa_sources = [''https://x.io/docs'']\<rparr>,
            randomDraw = 1 / 2, extractedCompetitors = None, categoryReply = Map.empty,
            topicReplies = (\<lambda>topicName. Map.empty)\<rparr>"

definition envB :: stepEnv where
  "envB = \<lparr>timeNow = 4,
            analyzeResult = Some \<lparr>pa_response = ''Use CompetitorY'', pa_brandMentioned = True,
              pa_competitors = [''CompetitorY''], pa_sources = [''https://y.io/docs'']\<rparr>,
            randomDraw = 1 / 2, extractedCompetitors = None, categoryReply = Map.empty,
            topicReplies = (\<lambda>topicName. Map.empty)\<rparr>"

definition idleSystem :: system where
  "idleSystem = \<lparr>globalState = initialGlobals newMemStorage, runs = []\<rparr>"

definition storageCounts :: "system \<Rightarrow> nat \<times> nat \<times> nat" where
  "storageCounts sys =
     (length (getResponses (storage (globalState sys))),
      length (getCompetitors (storage (globalState sys))),
      length (getSources (storage (globalState sys))))"

definition usedStorage :: MemStorage where
  "usedStorage =
     \<lparr>ms_topics = [(1, \<lparr>topic_id = 1, topic_name = ''Pricing'', topic_description = None,
                         topic_createdAt = 1\<rparr>)],
      ms_prompts = [(1, \<lparr>prompt_id = 1, prompt_text = ''Need cheaper hosting'',
                          prompt_topicId = Some 1, prompt_createdAt = 1\<rparr>)],
      ms_responses = [(1, \<lparr>response_id = 1, response_promptId = 1, response_text = ''Try CompetitorX'',
                            response_brandMentioned = Some False,
                            response_competitorsMentioned = Some [''CompetitorX''],
                            response_sources = Some [], response_createdAt = 1\<rparr>)],
      ms_competitors = [(1, \<lparr>competitor_id = 1, competitor_name = ''CompetitorX'',
                              competitor_category = Some ''Technology'',
                              competitor_mentionCount = None, competitor_lastMentioned = None\<rparr>)],
      ms_sources = [(1, \<lparr>source_id = 1, source_domain = ''docs.competitorx.com'',
                          source_url = ''https://docs.competitorx.com/guide'',
                          source_title = Some ''docs Documentation'',
                          source_citationCount = None, source_lastCited = Some 1\<rparr>)],
      ms_analytics = [], currentTopicId = 2, currentPromptId = 2, currentResponseId = 2,
      currentCompetitorId = 2, currentSourceId = 2, currentAnalyticsId = 1\<rparr>"


section \<open>Properties of the storage\<close>

lemma find_mapSet_fresh:
  assumes "find P (map snd m) = None" and "P v"
  shows "find P (map snd (mapSet k v m)) = Some v"
  using assms by (induction m) (auto split: if_splits)

lemma createCompetitor_zero:
  "competitor_mentionCount (fst (createCompetitor (c\<lparr>ic_mentionCount := Some 0\<rparr>) s)) = None"
  by (simp add: createCompetitor_def orNullInt_def Let_def)

lemma createSource_zero:
  "source_citationCount (fst (createSource (src\<lparr>is_citationCount := Some 0\<rparr>) now s)) = None"
  by (simp add: createSource_def orNullInt_def Let_def)

lemma updateCompetitorMentionCount_noop:
  assumes "getCompetitorByName name s = None \<or>
           (\<exists>x. getCompetitorByName name s = Some x \<and> competitor_mentionCount x = None)"
  shows "updateCompetitorMentionCount name k now s = s"
  using assms by (auto simp: updateCompetitorMentionCount_def)

lemma updateSourceCitationCount_noop:
  assumes "getSourceByDomain d s = None \<or>
           (\<exists>x. getSourceByDomain d s = Some x \<and> source_citationCount x = None)"
  shows "updateSourceCitationCount d k now s = s"
  using assms by (auto simp: updateSourceCitationCount_def)

lemma getCompetitorByName_created:
  assumes "getCompetitorByName (ic_name c) s = None"
  shows "getCompetitorByName (ic_name c) (snd (createCompetitor c s)) = Some (fst (createCompetitor c s))"
  using assms find_mapSet_fresh [of "\<lambda>x. competitor_name x = ic_name c" "ms_competitors s"
      "fst (createCompetitor c s)"]
  by (simp add: getCompetitorByName_def createCompetitor_def Let_def mapValues_def)

lemma getSourceByDomain_created:
  assumes "getSourceByDomain (is_domain src) s = None"
  shows "getSourceByDomain (is_domain src) (snd (createSource src now s)) = Some (fst (createSource src now s))"
  using assms find_mapSet_fresh [of "\<lambda>x. source_domain x = is_domain src" "ms_sources s"
      "fst (createSource src now s)"]
  by (simp add: getSourceByDomain_def createSource_def Let_def mapValues_def)

lemma create_then_increment_competitor:
  assumes "getCompetitorByName (ic_name c) s = None"
  shows "map_option competitor_mentionCount
           (getCompetitorByName (ic_name c)
              (updateCompetitorMentionCount (ic_name c) 1 now
                 (snd (createCompetitor (c\<lparr>ic_mentionCount := Some 0\<rparr>) s)))) = Some None"
proof -
  let ?c = "c\<lparr>ic_mentionCount := Some 0\<rparr>"
  have g: "getCompetitorByName (ic_name c) (snd (createCompetitor ?c s)) = Some (fst (createCompetitor ?c s))"
    using getCompetitorByName_created [of ?c s] assms by simp
  have "updateCompetitorMentionCount (ic_name c) 1 now (snd (createCompetitor ?c s))
        = snd (createCompetitor ?c s)"
    by (rule updateCompetitorMentionCount_noop) (simp add: g createCompetitor_zero)
  then show ?thesis by (simp add: g createCompetitor_zero)
qed

lemma create_then_increment_source:
  assumes "getSourceByDomain (is_domain src) s = None"
  shows "map_option source_citationCount
           (getSourceByDomain (is_domain src)
              (updateSourceCitationCount (is_domain src) 1 now'
                 (snd (createSource (src\<lparr>is_citationCount := Some 0\<rparr>) now s)))) = Some None"
proof -
  let ?c = "src\<lparr>is_citationCount := Some 0\<rparr>"
  have g: "getSourceByDomain (is_domain src) (snd (createSource ?c now s)) = Some (fst (createSource ?c now s))"
    using getSourceByDomain_created [of ?c s now] assms by simp
  have "updateSourceCitationCount (is_domain src) 1 now' (snd (createSource ?c now s))
        = snd (createSource ?c now s)"
    by (rule updateSourceCitationCount_noop) (simp add: g createSource_zero)
  then show ?thesis by (simp add: g createSource_zero)
qed

text \<open>
  Claim C10. In the in-memory storage, \<open>createCompetitor\<close> called with mention count 0
  stores the count as null, \<open>createSource\<close> called with citation count 0 stores the count
  as null, \<open>updateCompetitorMentionCount\<close> and \<open>updateSourceCitationCount\<close> leave the
  whole store unchanged when the name or domain is absent or its stored count is null,
  and so creating an absent name or domain with count 0 and then incrementing by 1, as
  the orchestrator does, leaves the stored count null rather than 1.
\<close>

theorem zero_count_coercion:
  "competitor_mentionCount (fst (createCompetitor (c\<lparr>ic_mentionCount := Some 0\<rparr>) s)) = None
   \<and> source_citationCount (fst (createSource (src\<lparr>is_citationCount := Some 0\<rparr>) now s)) = None
   \<and> (getCompetitorByName name s = None \<or>
        (\<exists>x. getCompetitorByName name s = Some x \<and> competitor_mentionCount x = None)
      \<longrightarrow> updateCompetitorMentionCount name k now s = s)
   \<and> (getSourceByDomain d s = None \<or>
        (\<exists>x. getSourceByDomain d s = Some x \<and> source_citationCount x = None)
      \<longrightarrow> updateSourceCitationCount d k now s = s)
   \<and> (getCompetitorByName (ic_name c) s = None \<longrightarrow>
        map_option competitor_mentionCount
          (getCompetitorByName (ic_name c)
             (updateCompetitorMentionCount (ic_name c) 1 now
                (snd (createCompetitor (c\<lparr>ic_mentionCount := Some 0\<rparr>) s)))) = Some None)
   \<and> (getSourceByDomain (is_domain src) s = None \<longrightarrow>
        map_option source_citationCount
          (getSourceByDomain (is_domain src)
             (updateSourceCitationCount (is_domain src) 1 now
                (snd (createSource (src\<lparr>is_citationCount := Some 0\<rparr>) now s)))) = Some None)"
  using createCompetitor_zero [of c s] createSource_zero [of src now s]
    updateCompetitorMentionCount_noop [of name s k now]
    updateSourceCitationCount_noop [of d s k now]
    create_then_increment_competitor [of c s now]
    create_then_increment_source [of src s now now]
  by blast

theorem zero_count_coercion_witness:
  "getCompetitorByName ''Acme'' newMemStorage = None
   \<and> getSourceByDomain ''acme.io'' newMemStorage = None
   \<and> updateCompetitorMentionCount ''Acme'' 1 7 newMemStorage = newMemStorage
   \<and> updateSourceCitationCount ''acme.io'' 1 7 newMemStorage = newMemStorage
   \<and> map_option competitor_mentionCount
        (getCompetitorByName ''Acme''
           (updateCompetitorMentionCount ''Acme'' 1 7
              (snd (createCompetitor
                 \<lparr>ic_name = ''Acme'', ic_category = Some ''Technology'', ic_mentionCount = Some 0\<rparr>
                 newMemStorage)))) = Some None
   \<and> map_option source_citationCount
        (getSourceByDomain ''acme.io''
           (updateSourceCitationCount ''acme.io'' 1 7
              (snd (createSource
                 \<lparr>is_domain = ''acme.io'', is_url = ''https://acme.io/docs'',
                  is_title = Some ''acme Documentation'', is_citationCount = Some 0\<rparr>
                 7 newMemStorage)))) = Some None"
proof -
  have a: "getCompetitorByName ''Acme'' newMemStorage = None"
    by (simp add: getCompetitorByName_def newMemStorage_def mapValues_def)
  have b: "getSourceByDomain ''acme.io'' newMemStorage = None"
    by (simp add: getSourceByDomain_def newMemStorage_def mapValues_def)
  show ?thesis
    using a b
      zero_count_coercion [of
        "\<lparr>ic_name = ''Acme'', ic_category = Some ''Technology'', ic_mentionCount = Some 0\<rparr>"
        newMemStorage
        "\<lparr>is_domain = ''acme.io'', is_url = ''https://acme.io/docs'',
          is_title = Some ''acme Documentation'', is_citationCount = Some 0\<rparr>"
        7 "''Acme''" 1 "''acme.io''"]
    by simp
qed

section \<open>Properties of the diversity filter\<close>




















section \<open>Properties of the prompts for a topic\<close>










section \<open>Properties of the URL extraction\<close>

lemma distinct_dedupe: "distinct (dedupe xs)"
  by (simp add: dedupe_def)

lemma set_dedupe: "set (dedupe xs) = set xs"
  by (simp add: dedupe_def)

lemma strip_end_keeps_prefix:
  assumes "p \<noteq> []" and "\<not> P (last p)"
  shows "\<exists>r'. rev (dropWhile P (rev (p @ r))) = p @ r'"
proof (cases "\<forall>x \<in> set (rev r). P x")
  case True
  have "dropWhile P (rev p) = rev p"
    using assms by (cases "rev p") (auto simp: last_rev hd_rev)
  then have "rev (dropWhile P (rev (p @ r))) = p @ []"
    using True by (simp add: dropWhile_append)
  then show ?thesis by blast
next
  case False
  then have "dropWhile P (rev r @ rev p) = dropWhile P (rev r) @ rev p"
    by (auto simp: dropWhile_append)
  then have "rev (dropWhile P (rev (p @ r))) = p @ rev (dropWhile P (rev r))"
    by simp
  then show ?thesis by blast
qed

lemma startsWith_append: "startsWith (p @ r) p"
  by (simp add: startsWith_def)

lemma trim_keeps_http:
  assumes "startsWith s ''http''"
  shows "startsWith (trim s) ''http''"
proof -
  obtain r where s: "s = ''http'' @ r"
    using assms unfolding startsWith_def by (metis append_take_drop_id)
  have ts: "trimStart s = s"
    by (simp add: s trimStart_def isSpaceChar_def charCode_def)
  have "\<not> isSpaceChar (last ''http'')"
    by (simp add: isSpaceChar_def charCode_def)
  then obtain r' where "rev (dropWhile isSpaceChar (rev (''http'' @ r))) = ''http'' @ r'"
    using strip_end_keeps_prefix [of "''http''" isSpaceChar r] by auto
  then obtain r' where "trimEnd s = ''http'' @ r'" unfolding trimEnd_def s by blast
  then show ?thesis
    unfolding trim_def ts using startsWith_append [of "''http''"] by simp
qed

lemma startsWith_http_cleanUrl: "startsWith (cleanUrl url) ''http''"
proof -
  define c where "c = (if \<not> startsWith (trim url) ''http'' then ''https://'' @ trim url else trim url)"
  have "startsWith c ''http''"
    by (simp add: c_def startsWith_def)
  then obtain r where c: "c = ''http'' @ r"
    unfolding startsWith_def by (metis append_take_drop_id)
  have "\<not> isTrailingPunct (last ''http'')"
    by (simp add: isTrailingPunct_def)
  then obtain r' where "rev (dropWhile isTrailingPunct (rev (''http'' @ r))) = ''http'' @ r'"
    using strip_end_keeps_prefix [of "''http''" isTrailingPunct r] by auto
  then have "startsWith (rev (dropWhile isTrailingPunct (rev c))) ''http''"
    unfolding c using startsWith_append [of "''http''"] by simp
  then have "startsWith (trim (rev (dropWhile isTrailingPunct (rev c)))) ''http''"
    by (rule trim_keeps_http)
  then show ?thesis by (simp add: cleanUrl_def Let_def c_def)
qed

lemma keepUrl_hostname:
  "keepUrl u \<Longrightarrow> \<exists>h. urlHostname u = Some h \<and> h \<noteq> ''example.com'' \<and> h \<noteq> ''localhost'' \<and> 3 \<le> length h"
  by (cases "urlHostname u") (auto simp: keepUrl_def)

text \<open>
  Claim C8, as amended. \<open>extractUrlsFromText\<close> applied to
  \<open>check https://example.org/a and www.foo.com/b\<close> returns exactly the two-element list
  \<open>https://example.org/a\<close>, \<open>https://www.foo.com/b\<close> in that order: the missing protocol
  is replaced by \<open>https://\<close> and the prefix \<open>www.\<close> is kept. For every text the result has
  no duplicates, and every URL in it starts with \<open>http\<close> and has a host that is neither
  \<open>example.com\<close> nor \<open>localhost\<close> and has at least 3 characters.
\<close>

theorem url_extraction:
  "extractUrlsFromText ''check https://example.org/a and www.foo.com/b''
     = [''https://example.org/a'', ''https://www.foo.com/b'']
   \<and> distinct (extractUrlsFromText text)
   \<and> (\<forall>u \<in> set (extractUrlsFromText text).
         startsWith u ''http''
         \<and> (\<exists>h. urlHostname u = Some h \<and> h \<noteq> ''example.com'' \<and> h \<noteq> ''localhost''
                \<and> 3 \<le> length h))"
proof -
  have ex: "extractUrlsFromText ''check https://example.org/a and www.foo.com/b''
     = [''https://example.org/a'', ''https://www.foo.com/b'']"
    by code_simp
  have d: "distinct (extractUrlsFromText text)"
    by (simp add: extractUrlsFromText_def Let_def distinct_dedupe)
  have "startsWith u ''http''
         \<and> (\<exists>h. urlHostname u = Some h \<and> h \<noteq> ''example.com'' \<and> h \<noteq> ''localhost''
                \<and> 3 \<le> length h)" if "u \<in> set (extractUrlsFromText text)" for u
  proof -
    from that obtain x where "u = cleanUrl x" and "keepUrl u"
      by (auto simp: extractUrlsFromText_def Let_def set_dedupe)
    then show ?thesis using startsWith_http_cleanUrl keepUrl_hostname by blast
  qed
  then show ?thesis using ex d by blast
qed

theorem url_extraction_witness:
  "''https://www.foo.com/b'' \<in> set (extractUrlsFromText ''check https://example.org/a and www.foo.com/b'')
   \<and> startsWith ''https://www.foo.com/b'' ''http''
   \<and> urlHostname ''https://www.foo.com/b'' = Some ''www.foo.com''
   \<and> 3 \<le> length ''www.foo.com''"
proof -
  let ?t = "''check https://example.org/a and www.foo.com/b''"
  note t = url_extraction [of ?t]
  have e: "extractUrlsFromText ?t = [''https://example.org/a'', ''https://www.foo.com/b'']"
    using t by blast
  then have m: "''https://www.foo.com/b'' \<in> set (extractUrlsFromText ?t)" by simp
  then have "startsWith ''https://www.foo.com/b'' ''http''" using t by blast
  moreover have "urlHostname ''https://www.foo.com/b'' = Some ''www.foo.com''" by code_simp
  ultimately show ?thesis using m by simp
qed

text \<open>
  Claim C8 as stated expects \<open>https://foo.com/b\<close> as the second URL; the function keeps
  the prefix \<open>www.\<close>.
\<close>

theorem url_extraction_counterexample:
  "extractUrlsFromText ''check https://example.org/a and www.foo.com/b''
     \<noteq> [''https://example.org/a'', ''https://foo.com/b'']"
proof -
  have "extractUrlsFromText ''check https://example.org/a and www.foo.com/b''
     = [''https://example.org/a'', ''https://www.foo.com/b'']"
    by code_simp
  then show ?thesis by simp
qed

section \<open>Properties of the analysis run\<close>





















lemma startRun_idle:
  assumes "\<not> isAnalysisRunning g"
  shows "storage (fst (startRun u sp st t g)) = storage g"
    and "isAnalysisRunning (fst (startRun u sp st t g))"
    and "phase (snd (startRun u sp st t g)) = Delayed"
    and "savedPrompts (snd (startRun u sp st t g)) = sp"
    and "useExistingPrompts (snd (startRun u sp st t g)) = u"
    and "runSettings (snd (startRun u sp st t g)) = st"
  using assms by (simp_all add: startRun_def updateProgress_def resetProgress_def)












text \<open>
  Claim C9. In the segment that chooses the prompts, when saved prompts are given (a
  non-empty list) every stored prompt, response and competitor is cleared, while the
  sources (and the topics and analytics) stay as they are, and the saved prompts are
  taken as they are; when no saved prompts are given and \<open>useExistingPrompts\<close> is set,
  the storage is unchanged and the stored prompts are taken.
\<close>

theorem clearing_frame:
  assumes "phase r = Delayed"
  shows "(hasSavedPrompts (savedPrompts r) \<longrightarrow>
            ms_prompts (storage (fst (proceed env (g, r)))) = []
          \<and> ms_responses (storage (fst (proceed env (g, r)))) = []
          \<and> ms_competitors (storage (fst (proceed env (g, r)))) = []
          \<and> ms_sources (storage (fst (proceed env (g, r)))) = ms_sources (storage g)
          \<and> ms_topics (storage (fst (proceed env (g, r)))) = ms_topics (storage g)
          \<and> ms_analytics (storage (fst (proceed env (g, r)))) = ms_analytics (storage g)
          \<and> allPrompts (snd (proceed env (g, r)))
              = map (\<lambda>p. \<lparr>ip_text = sp_text p, ip_topicId = orNullNat (sp_topicId p)\<rparr>)
                  (savedList (savedPrompts r)))
    \<and> (\<not> hasSavedPrompts (savedPrompts r) \<and> useExistingPrompts r \<longrightarrow>
            storage (fst (proceed env (g, r))) = storage g
          \<and> allPrompts (snd (proceed env (g, r)))
              = map (\<lambda>p. \<lparr>ip_text = prompt_text p, ip_topicId = prompt_topicId p\<rparr>)
                  (getPrompts (storage g)))"
  using assms
  by (simp add: proceed_def beginLoop_def choosePrompts_def updateProgressCounts_def updateProgress_def
      onStorage_def clearExistingData_def clearAllCompetitors_def clearAllResponses_def
      clearAllPrompts_def)
theorem clearing_frame_witness:
  "phase (snd (startRun False (Some pricingPrompts) None 1 (initialGlobals usedStorage))) = Delayed
   \<and> hasSavedPrompts (savedPrompts (snd (startRun False (Some pricingPrompts) None 1 (initialGlobals usedStorage))))
   \<and> ms_prompts (storage (fst (proceed envX (startRun False (Some pricingPrompts) None 1 (initialGlobals usedStorage))))) = []
   \<and> ms_responses (storage (fst (proceed envX (startRun False (Some pricingPrompts) None 1 (initialGlobals usedStorage))))) = []
   \<and> ms_competitors (storage (fst (proceed envX (startRun False (Some pricingPrompts) None 1 (initialGlobals usedStorage))))) = []
   \<and> ms_sources (storage (fst (proceed envX (startRun False (Some pricingPrompts) None 1 (initialGlobals usedStorage)))))
       = ms_sources usedStorage
   \<and> ms_sources usedStorage \<noteq> []
   \<and> phase (snd (startRun True None None 1 (initialGlobals usedStorage))) = Delayed
   \<and> \<not> hasSavedPrompts (savedPrompts (snd (startRun True None None 1 (initialGlobals usedStorage))))
   \<and> useExistingPrompts (snd (startRun True None None 1 (initialGlobals usedStorage)))
   \<and> storage (fst (proceed envX (startRun True None None 1 (initialGlobals usedStorage)))) = usedStorage"
proof -
  let ?a = "startRun False (Some pricingPrompts) None 1 (initialGlobals usedStorage)"
  let ?b = "startRun True None None 1 (initialGlobals usedStorage)"
  have idle: "\<not> isAnalysisRunning (initialGlobals usedStorage)" by (simp add: initialGlobals_def)
  have a1: "phase (snd ?a) = Delayed" by (rule startRun_idle(3) [OF idle])
  have a2: "hasSavedPrompts (savedPrompts (snd ?a))"
    unfolding startRun_idle(4) [OF idle] by code_simp
  have a3: "storage (fst ?a) = usedStorage"
    unfolding startRun_idle(1) [OF idle] by (simp add: initialGlobals_def)
  have b1: "phase (snd ?b) = Delayed" by (rule startRun_idle(3) [OF idle])
  have b2: "\<not> hasSavedPrompts (savedPrompts (snd ?b))"
    unfolding startRun_idle(4) [OF idle] by (simp add: hasSavedPrompts_def)
  have b3: "useExistingPrompts (snd ?b)" unfolding startRun_idle(5) [OF idle] by simp
  have b4: "storage (fst ?b) = usedStorage"
    unfolding startRun_idle(1) [OF idle] by (simp add: initialGlobals_def)
  have ne: "ms_sources usedStorage \<noteq> []" by (simp add: usedStorage_def)
  note ta = clearing_frame [OF a1, of envX "fst ?a"]
  note tb = clearing_frame [OF b1, of envX "fst ?b"]
  have ca: "ms_prompts (storage (fst (proceed envX ?a))) = []
          \<and> ms_responses (storage (fst (proceed envX ?a))) = []
          \<and> ms_competitors (storage (fst (proceed envX ?a))) = []
          \<and> ms_sources (storage (fst (proceed envX ?a))) = ms_sources usedStorage"
    using ta a2 a3 by simp
  have cb: "storage (fst (proceed envX ?b)) = usedStorage"
    using tb b2 b3 b4 by simp
  show ?thesis using a1 a2 b1 b2 b3 ne ca cb by blast
qed
text \<open>
  Claim C1 does not hold for \<open>runFullAnalysis\<close>. The baseline run over two prompts stores
  two responses, two competitors and two sources. When a second call arrives after the
  first prompt, it returns at once, but its \<open>finally\<close> clears the flag: the first run then
  takes the cleared flag for a cancellation and stops with one response, one competitor
  and one source. A third call made after the second finds the flag cleared and starts
  a second run while the first is still in its loop.
\<close>

theorem single_flight_violation:
  "storageCounts (exec [Call False (Some twoPrompts) None 1, Proceed 0 envA, Proceed 0 envA,
                         Proceed 0 envB, Proceed 0 envB] idleSystem) = (2, 2, 2)
   \<and> storageCounts (exec [Call False (Some twoPrompts) None 1, Proceed 0 envA, Proceed 0 envA,
                           Call False (Some twoPrompts) None 2,
                           Proceed 0 envB, Proceed 0 envB] idleSystem) = (1, 1, 1)
   \<and> message (currentProgress (globalState
         (exec [Call False (Some twoPrompts) None 1, Proceed 0 envA, Proceed 0 envA,
                Call False (Some twoPrompts) None 2,
                Proceed 0 envB, Proceed 0 envB] idleSystem))) = ''Analysis cancelled by user''
   \<and> isAnalysisRunning (globalState
         (exec [Call False (Some twoPrompts) None 1, Proceed 0 envA] idleSystem))
   \<and> \<not> isAnalysisRunning (globalState
         (exec [Call False (Some twoPrompts) None 1, Proceed 0 envA,
                Call False (Some twoPrompts) None 2] idleSystem))
   \<and> map phase (runs
         (exec [Call False (Some twoPrompts) None 1, Proceed 0 envA,
                Call False (Some twoPrompts) None 2,
                Call False (Some twoPrompts) None 3] idleSystem)) = [Looping, Finished, Delayed]"
  by code_simp



end
